theory Spec2Isabelle
  imports Main "HOL-Library.Word"
begin

unbundle bit_operations_syntax

section \<open>The hessian2 wire codec of dubbo-go: data model\<close>

text \<open>
  The Go file under verification is the package \<open>hessian2\<close> codec (\<open>HessianCodec\<close> with
  \<open>Write\<close>, \<open>ReadHeader\<close>, \<open>ReadBody\<close> and \<open>ReadAttachments\<close>). Go values are modelled as
  follows: \<open>byte\<close> is an 8-bit word, \<open>int64\<close> a 64-bit word, \<open>uint32\<close> a 32-bit word; Go's
  \<open>int\<close> (32 or 64 bits wide, depending on the platform) is a HOL integer, with the
  width made explicit where a conversion depends on it. A Go call either returns or
  panics.
\<close>

type_synonym byte = "8 word"

datatype 'a go = Return 'a | Panic string

subsection \<open>Errors\<close>

text \<open>
  The three sentinel errors of the package, the errors built by \<open>perrors.Errorf\<close> (the
  formatted message is kept), the wrapper \<open>perrors.WithStack\<close>, and the errors that the
  buffered reader or its underlying source can produce.
\<close>

datatype error =
    ErrHeaderNotEnough
  | ErrBodyNotEnough
  | ErrIllegalPackage
  | Errorf string
  | WithStack error
  | EOF
  | ErrBufferFull
  | ErrNegativeCount
  | ErrNoProgress
  | SourceError nat

text \<open>\<open>perrors.WithStack(err)\<close> returns nil for a nil error.\<close>

definition perrors_WithStack :: "error option \<Rightarrow> error option" where
  "perrors_WithStack e = map_option WithStack e"

subsection \<open>Decimal formatting (\<open>%v\<close> of an integer)\<close>

definition digit_char :: "nat \<Rightarrow> char" where
  "digit_char d = char_of (48 + d)"

fun show_nat_aux :: "nat \<Rightarrow> nat \<Rightarrow> string \<Rightarrow> string" where
  "show_nat_aux 0 n acc = acc"
| "show_nat_aux (Suc fuel) n acc =
     (if n < 10 then digit_char n # acc
      else show_nat_aux fuel (n div 10) (digit_char (n mod 10) # acc))"

definition show_nat :: "nat \<Rightarrow> string" where
  "show_nat n = show_nat_aux (Suc n) n []"

definition show_int :: "int \<Rightarrow> string" where
  "show_int i = (if i < 0 then CHR ''-'' # show_nat (nat (- i)) else show_nat (nat i))"

subsection \<open>Package types and headers\<close>

text \<open>\<open>type PackageType int\<close> and its enumeration.\<close>

type_synonym PackageType = int

definition PackageError :: PackageType where "PackageError = 0x01"
definition PackageRequest :: PackageType where "PackageRequest = 0x02"
definition PackageResponse :: PackageType where "PackageResponse = 0x04"
definition PackageHeartbeat :: PackageType where "PackageHeartbeat = 0x08"
definition PackageRequest_TwoWay :: PackageType where "PackageRequest_TwoWay = 0x10"
definition PackageResponse_Exception :: PackageType where "PackageResponse_Exception = 0x20"
definition PackageType_BitSize :: PackageType where "PackageType_BitSize = 0x2f"

record DubboHeader =
  SerialID :: byte
  Type :: PackageType
  ID :: "64 word"
  BodyLen :: int
  ResponseStatus :: byte

record Service =
  Path :: string
  Interface :: string
  Group :: string
  Version :: string
  Method :: string
  Timeout :: int

text \<open>The header that a caller constructs empty: Go's zero value.\<close>

definition empty_header :: DubboHeader where
  "empty_header = \<lparr>SerialID = 0, Type = 0, ID = 0, BodyLen = 0, ResponseStatus = 0\<rparr>"

subsection \<open>Constants declared outside the file\<close>

text \<open>
  The protocol constants live in another file of the package, which is not part of the
  sources at hand. The magic bytes, the three flag bits and the OK status are
  parameters of the model; a concrete record is only used to run it.
\<close>

record protocol_consts =
  MAGIC_HIGH :: byte
  MAGIC_LOW :: byte
  FLAG_REQUEST :: byte
  FLAG_TWOWAY :: byte
  FLAG_EVENT :: byte
  Response_OK :: byte

text \<open>Modelled from the spec: \<open>HEADER_LENGTH\<close> is missing from the sources; the header
  is the fixed 16-byte frame prefix.\<close>

definition HEADER_LENGTH :: int where
  "HEADER_LENGTH = 16"

text \<open>Modelled from the spec: \<open>SERIAL_MASK\<close> is missing from the sources; bits 0 to 4 of
  the flag byte hold the serialization id (a 5-bit mask).\<close>

definition SERIAL_MASK :: byte where
  "SERIAL_MASK = 0x1f"

text \<open>Modelled from the spec: \<open>Zero\<close> is missing from the sources; it is the zero value
  of a byte.\<close>

definition Zero :: byte where
  "Zero = 0x00"

text \<open>Go's \<open>int\<close> is 32 or 64 bits wide; \<open>int(x)\<close> of a \<open>uint32\<close> keeps the value on a
  64-bit platform and reinterprets the bits as two's complement on a 32-bit one.\<close>

datatype int_width = Int32 | Int64

definition int_of_uint32 :: "int_width \<Rightarrow> 32 word \<Rightarrow> int" where
  "int_of_uint32 w x = (case w of Int32 \<Rightarrow> sint x | Int64 \<Rightarrow> uint x)"

text \<open>\<open>binary.BigEndian.Uint64\<close> and \<open>Uint32\<close> on a slice with at least 8 (4) bytes.\<close>

definition BigEndian_Uint64 :: "byte list \<Rightarrow> 64 word" where
  "BigEndian_Uint64 b =
     ucast (b ! 7) OR push_bit 8 (ucast (b ! 6)) OR push_bit 16 (ucast (b ! 5))
     OR push_bit 24 (ucast (b ! 4)) OR push_bit 32 (ucast (b ! 3)) OR push_bit 40 (ucast (b ! 2))
     OR push_bit 48 (ucast (b ! 1)) OR push_bit 56 (ucast (b ! 0))"

definition BigEndian_Uint32 :: "byte list \<Rightarrow> 32 word" where
  "BigEndian_Uint32 b =
     ucast (b ! 3) OR push_bit 8 (ucast (b ! 2)) OR push_bit 16 (ucast (b ! 1))
     OR push_bit 24 (ucast (b ! 0))"

section \<open>The byte source: Go's \<open>bufio.Reader\<close>\<close>

text \<open>
  The codec reads through a \<open>*bufio.Reader\<close> of the Go standard library. The model keeps
  what its methods depend on: the capacity of the internal buffer (\<open>len(b.buf)\<close>, what
  \<open>Size()\<close> returns), the bytes buffered and not yet consumed (\<open>b.buf[b.r:b.w]\<close>, whose
  count \<open>Buffered()\<close> returns), the pending error \<open>b.err\<close>, and the underlying
  \<open>io.Reader\<close>. The underlying reader is a script of what its successive \<open>Read\<close> calls
  will deliver: a chunk of bytes that has arrived, or a failure; an exhausted script
  reports \<open>io.EOF\<close>.
\<close>

datatype event = Data "byte list" | Fail error

text \<open>One \<open>Read(p)\<close> of the underlying reader with \<open>len(p) = k\<close>: at most \<open>k\<close> bytes of the
  chunk at the front are delivered, the rest of the chunk stays for the next call.\<close>

fun rd_Read :: "nat \<Rightarrow> event list \<Rightarrow> (byte list \<times> error option) \<times> event list" where
  "rd_Read k [] = (([], Some EOF), [])"
| "rd_Read k (Fail e # es) = (([], Some e), es)"
| "rd_Read k (Data c # es) =
     ((take k c, None), (if length c \<le> k then es else Data (drop k c) # es))"

record Reader =
  bufsize :: nat
  pending :: "byte list"
  rerr :: "error option"
  rd :: "event list"

text \<open>\<open>bufio.NewReaderSize(rd, size)\<close>: the capacity is at least 16 bytes.\<close>

definition NewReaderSize :: "event list \<Rightarrow> int \<Rightarrow> Reader" where
  "NewReaderSize src sz =
     \<lparr>bufsize = nat (max sz 16), pending = [], rerr = None, rd = src\<rparr>"

definition Size :: "Reader \<Rightarrow> int" where
  "Size b = int (bufsize b)"

definition Buffered :: "Reader \<Rightarrow> int" where
  "Buffered b = int (length (pending b))"

text \<open>\<open>b.readErr()\<close> hands out the pending error and clears it.\<close>

definition readErr :: "Reader \<Rightarrow> error option \<times> Reader" where
  "readErr b = (rerr b, b\<lparr>rerr := None\<rparr>)"

text \<open>\<open>b.fill()\<close> reads a new chunk into the free part of the buffer. It panics on a full
  buffer, and gives up with \<open>io.ErrNoProgress\<close> after 100 reads that deliver nothing.\<close>

fun fill_tries :: "nat \<Rightarrow> Reader \<Rightarrow> Reader" where
  "fill_tries 0 b = b\<lparr>rerr := Some ErrNoProgress\<rparr>"
| "fill_tries (Suc i) b =
     (case rd_Read (bufsize b - length (pending b)) (rd b) of
        ((bs, e), src) \<Rightarrow>
          (let b = b\<lparr>pending := pending b @ bs, rd := src\<rparr> in
           if e \<noteq> None then b\<lparr>rerr := e\<rparr>
           else if bs \<noteq> [] then b
           else fill_tries i b))"

definition fill :: "Reader \<Rightarrow> Reader go" where
  "fill b =
     (if bufsize b \<le> length (pending b) then Panic ''bufio: tried to fill full buffer''
      else Return (fill_tries 100 b))"

text \<open>\<open>b.Peek(n)\<close>: fill until \<open>n\<close> bytes are buffered, the buffer is full or an error is
  pending; then return the first \<open>n\<close> buffered bytes without consuming them, or what is
  there together with an error.\<close>

function Peek_fill :: "nat \<Rightarrow> Reader \<Rightarrow> Reader go" where
  "Peek_fill n b =
     (if length (pending b) < n \<and> length (pending b) < bufsize b \<and> rerr b = None
      then (case fill b of Panic m \<Rightarrow> Panic m | Return b' \<Rightarrow> Peek_fill n b')
      else Return b)"
  by pat_completeness auto

lemma rd_Read_length: "rd_Read k src = ((bs, e), src') \<Longrightarrow> length bs \<le> k"
  by (induction k src rule: rd_Read.induct) auto

lemma fill_tries_progress:
  "length (pending b) < bufsize b \<Longrightarrow> b' = fill_tries i b \<Longrightarrow>
   bufsize b' = bufsize b \<and> length (pending b') \<le> bufsize b' \<and>
   (rerr b' \<noteq> None \<or> length (pending b) < length (pending b'))"
proof (induction i arbitrary: b)
  case 0
  then show ?case by simp
next
  case (Suc i)
  obtain bs e src where r: "rd_Read (bufsize b - length (pending b)) (rd b) = ((bs, e), src)"
    by (metis prod.exhaust)
  from rd_Read_length[OF r] have len: "length bs \<le> bufsize b - length (pending b)" .
  show ?case
  proof (cases "e \<noteq> None")
    case True
    with Suc.prems r len show ?thesis by auto
  next
    case False
    note eN = this
    show ?thesis
    proof (cases "bs \<noteq> []")
      case True
      with Suc.prems r len eN show ?thesis by auto
    next
      case False
      with Suc.prems r eN have "b' = fill_tries i (b\<lparr>pending := pending b @ bs, rd := src\<rparr>)"
        by simp
      from Suc.IH[OF _ this] False Suc.prems show ?thesis by simp
    qed
  qed
qed

termination Peek_fill
proof (relation "measure (\<lambda>(n, b). if rerr b = None then Suc (bufsize b - length (pending b)) else 0)")
  show "wf (measure (\<lambda>(n, b). if rerr b = None then Suc (bufsize b - length (pending b)) else 0))"
    by simp
next
  fix n b b'
  assume a: "length (pending b) < n \<and> length (pending b) < bufsize b \<and> rerr b = None"
    and f: "fill b = Return b'"
  from a f have "b' = fill_tries 100 b"
    by (simp add: fill_def split: if_splits)
  from fill_tries_progress[OF _ this] a
  show "((n, b'), n, b) \<in> measure (\<lambda>(n, b). if rerr b = None then Suc (bufsize b - length (pending b)) else 0)"
    by auto
qed

declare Peek_fill.simps [simp del]

definition Peek :: "int \<Rightarrow> Reader \<Rightarrow> ((byte list \<times> error option) \<times> Reader) go" where
  "Peek n b =
     (if n < 0 then Return (([], Some ErrNegativeCount), b)
      else
        (case Peek_fill (nat n) b of
           Panic m \<Rightarrow> Panic m
         | Return b \<Rightarrow>
             if bufsize b < nat n then Return ((pending b, Some ErrBufferFull), b)
             else if length (pending b) < nat n then
               (case readErr b of
                  (e, b') \<Rightarrow> Return ((pending b, (if e = None then Some ErrBufferFull else e)), b'))
             else Return ((take (nat n) (pending b), None), b)))"

text \<open>\<open>b.Discard(n)\<close>: skip the next \<open>n\<close> bytes, filling the buffer when it runs empty;
  returns the number of bytes skipped, with an error when fewer than \<open>n\<close>.\<close>

function Discard_loop :: "nat \<Rightarrow> nat \<Rightarrow> Reader \<Rightarrow> ((int \<times> error option) \<times> Reader) go" where
  "Discard_loop n remain b =
     (case (if pending b = [] then fill b else Return b) of
        Panic m \<Rightarrow> Panic m
      | Return b1 \<Rightarrow>
          (let skip = min (length (pending b1)) remain;
               b2 = b1\<lparr>pending := drop skip (pending b1)\<rparr>;
               remain' = remain - skip
           in if remain' = 0 then Return ((int n, None), b2)
              else if rerr b2 \<noteq> None then
                (case readErr b2 of (e, b3) \<Rightarrow> Return ((int n - int remain', e), b3))
              else Discard_loop n remain' b2))"
  by pat_completeness auto

termination Discard_loop
proof (relation "measure (\<lambda>(n, remain, b). remain)")
  show "wf (measure (\<lambda>(n, remain, b). remain))" by simp
next
  fix n remain b b1 skip b2 remain'
  assume f: "(if pending b = [] then fill b else Return b) = Return b1"
    and sk: "skip = min (length (pending b1)) remain"
    and b2: "b2 = b1\<lparr>pending := drop skip (pending b1)\<rparr>"
    and r': "remain' = remain - skip"
    and nz: "remain' \<noteq> 0"
    and ne: "\<not> rerr b2 \<noteq> None"
  have "pending b1 \<noteq> []"
  proof (cases "pending b = []")
    case False
    with f show ?thesis by simp
  next
    case True
    with f have fb: "fill b = Return b1" by simp
    then have lt: "length (pending b) < bufsize b" and eq: "b1 = fill_tries 100 b"
      by (auto simp: fill_def split: if_splits)
    from fill_tries_progress[OF lt eq] ne b2 True show ?thesis by auto
  qed
  with sk r' nz have "remain' < remain" by (cases "pending b1") auto
  then show "((n, remain', b2), n, remain, b) \<in> measure (\<lambda>(n, remain, b). remain)" by simp
qed

declare Discard_loop.simps [simp del]

definition Discard :: "int \<Rightarrow> Reader \<Rightarrow> ((int \<times> error option) \<times> Reader) go" where
  "Discard n b =
     (if n < 0 then Return ((0, Some ErrNegativeCount), b)
      else if n = 0 then Return ((0, None), b)
      else Discard_loop (nat n) (nat n) b)"

text \<open>\<open>b.Read(p)\<close> with \<open>len(p) = k\<close>: buffered bytes are handed out first; on an empty
  buffer there is at most one \<open>Read\<close> of the underlying reader, directly into \<open>p\<close> when
  \<open>p\<close> is at least as large as the buffer. The bytes stored into \<open>p\<close> are returned;
  their count is Go's \<open>n\<close>.\<close>

definition Read :: "nat \<Rightarrow> Reader \<Rightarrow> (byte list \<times> error option) \<times> Reader" where
  "Read k b =
     (if k = 0 then
        (if pending b \<noteq> [] then (([], None), b)
         else (case readErr b of (e, b') \<Rightarrow> (([], e), b')))
      else if pending b = [] then
        (if rerr b \<noteq> None then (case readErr b of (e, b') \<Rightarrow> (([], e), b'))
         else if bufsize b \<le> k then
           (case rd_Read k (rd b) of
              ((bs, e), src) \<Rightarrow>
                (case readErr (b\<lparr>rd := src, rerr := e\<rparr>) of (e', b') \<Rightarrow> ((bs, e'), b')))
         else
           (case rd_Read (bufsize b) (rd b) of
              ((bs, e), src) \<Rightarrow>
                (let b1 = b\<lparr>rd := src, rerr := e\<rparr> in
                 if bs = [] then (case readErr b1 of (e', b') \<Rightarrow> (([], e'), b'))
                 else ((take k bs, None), b1\<lparr>pending := drop k bs\<rparr>))))
      else ((take k (pending b), None), b\<lparr>pending := drop k (pending b)\<rparr>))"

section \<open>The codec\<close>

record HessianCodec =
  pkgType :: PackageType
  reader :: Reader
  bodyLen :: int
  stream :: bool

definition NewHessianCodec :: "Reader \<Rightarrow> HessianCodec" where
  "NewHessianCodec r = \<lparr>pkgType = 0, reader = r, bodyLen = 0, stream = False\<rparr>"

definition NewHessianCodecCustom :: "PackageType \<Rightarrow> Reader \<Rightarrow> int \<Rightarrow> HessianCodec" where
  "NewHessianCodecCustom t r n = \<lparr>pkgType = t, reader = r, bodyLen = n, stream = False\<rparr>"

definition NewStreamHessianCodecCustom :: "PackageType \<Rightarrow> Reader \<Rightarrow> int \<Rightarrow> HessianCodec" where
  "NewStreamHessianCodecCustom t r n = \<lparr>pkgType = t, reader = r, bodyLen = n, stream = True\<rparr>"

subsection \<open>\<open>ReadHeader\<close>\<close>

text \<open>
  The second half of \<open>ReadHeader\<close> (from the comment \<open>read header\<close> to the end of the
  function): \<open>buf\<close> holds the 16 header bytes, \<open>header\<close> is the caller's struct, updated
  in place, and \<open>h\<close> the session. The result is the error returned (\<open>None\<close> is Go's nil)
  with the session and the header as the call leaves them. At the final return the
  local \<open>err\<close> is nil on every path, so \<open>perrors.WithStack(err)\<close> is nil.
\<close>

definition decodeHeader ::
  "int_width \<Rightarrow> protocol_consts \<Rightarrow> byte list \<Rightarrow> HessianCodec \<Rightarrow> DubboHeader
     \<Rightarrow> error option \<times> HessianCodec \<times> DubboHeader" where
  "decodeHeader w c buf h header =
     (if buf ! 0 \<noteq> MAGIC_HIGH c \<and> buf ! 1 \<noteq> MAGIC_LOW c then (Some ErrIllegalPackage, h, header)
      else
        (let header = header\<lparr>SerialID := buf ! 2 AND SERIAL_MASK\<rparr> in
         if SerialID header = Zero
         then (Some (Errorf (''serialization ID:'' @ show_nat (unat (SerialID header)))), h, header)
         else
           (let header =
                  (if buf ! 2 AND FLAG_EVENT c \<noteq> Zero
                   then header\<lparr>Type := Type header OR PackageHeartbeat\<rparr> else header);
                header =
                  (if buf ! 2 AND FLAG_REQUEST c \<noteq> Zero
                   then
                     (let header = header\<lparr>Type := Type header OR PackageRequest\<rparr> in
                      if buf ! 2 AND FLAG_TWOWAY c \<noteq> Zero
                      then header\<lparr>Type := Type header OR PackageRequest_TwoWay\<rparr> else header)
                   else
                     (let header = header\<lparr>Type := Type header OR PackageResponse\<rparr>;
                          header = header\<lparr>ResponseStatus := buf ! 3\<rparr> in
                      if ResponseStatus header \<noteq> Response_OK c
                      then header\<lparr>Type := Type header OR PackageResponse_Exception\<rparr>
                      else header));
                header = header\<lparr>ID := BigEndian_Uint64 (drop 4 buf)\<rparr>;
                header = header\<lparr>BodyLen := int_of_uint32 w (BigEndian_Uint32 (drop 12 buf))\<rparr>
            in if BodyLen header < 0 then (Some ErrIllegalPackage, h, header)
               else
                 (let h = h\<lparr>pkgType := Type header\<rparr>;
                      h = h\<lparr>bodyLen := BodyLen header\<rparr>
                  in if Buffered (reader h) < bodyLen h \<and> \<not> stream h
                     then (Some ErrBodyNotEnough, h, header)
                     else (None, h, header)))))"

text \<open>
  \<open>ReadHeader\<close>: the first half obtains the header bytes. In streaming mode a 16-byte
  array is read into, with one more read into \<open>buf[n:]\<close> when the first returned
  \<open>n < 16\<close> (the count of the second read is dropped); in buffered mode the capacity of
  the reader is compared with 16, then 16 bytes are peeked and discarded.
\<close>

definition ReadHeader ::
  "int_width \<Rightarrow> protocol_consts \<Rightarrow> HessianCodec \<Rightarrow> DubboHeader
     \<Rightarrow> (error option \<times> HessianCodec \<times> DubboHeader) go" where
  "ReadHeader w c h header =
     (if stream h then
        (let buf = replicate (nat HEADER_LENGTH) (0 :: byte) in
         case Read (length buf) (reader h) of
           ((bs, err), r) \<Rightarrow>
             (let h = h\<lparr>reader := r\<rparr>;
                  n = length bs;
                  buf = bs @ drop n buf
              in if err \<noteq> None then Return (perrors_WithStack err, h, header)
                 else if int n < HEADER_LENGTH then
                   (case Read (length buf - n) (reader h) of
                      ((bs2, err), r) \<Rightarrow>
                        (let h = h\<lparr>reader := r\<rparr>;
                             buf = take n buf @ bs2 @ drop (n + length bs2) buf
                         in if err \<noteq> None then Return (perrors_WithStack err, h, header)
                            else Return (decodeHeader w c buf h header)))
                 else Return (decodeHeader w c buf h header)))
      else if Size (reader h) < HEADER_LENGTH then Return (Some ErrHeaderNotEnough, h, header)
      else
        (case Peek HEADER_LENGTH (reader h) of
           Panic m \<Rightarrow> Panic m
         | Return ((buf, err), r) \<Rightarrow>
             (let h = h\<lparr>reader := r\<rparr> in
              if err \<noteq> None then Return (perrors_WithStack err, h, header)
              else
                (case Discard HEADER_LENGTH (reader h) of
                   Panic m \<Rightarrow> Panic m
                 | Return ((d, err), r) \<Rightarrow>
                     (let h = h\<lparr>reader := r\<rparr> in
                      if err \<noteq> None then Return (perrors_WithStack err, h, header)
                      else Return (decodeHeader w c buf h header))))))"

subsection \<open>Dynamic values and the external collaborators\<close>

text \<open>
  A value of Go's \<open>any\<close>, as far as the codec looks at it: the nil interface, a string,
  a \<open>map[string]any\<close> (which may be the nil map), a slice of values, a non-nil pointer
  to a \<open>DubboResponse\<close>, or a value of some other dynamic type.

  Modelled from the spec: the declaration of \<open>DubboResponse\<close> is missing from the
  sources; it is the response-shaped result container, with the decoded result, the
  exception stored on it and its attachment field.
\<close>

datatype any =
    AnyNil
  | AnyString string
  | AnyMap "(string \<times> any) list option"
  | AnySlice "any list"
  | AnyResponse DubboResponse
  | AnyOther nat
and DubboResponse =
    DubboResponse (RspObj: any) (Exception: "error option")
      (Attachments: "(string \<times> any) list option")

text \<open>
  The serialization library and the body unpackers are outside the file; they are
  parameters. A decoder is made by \<open>hessian.NewDecoder\<close> or \<open>hessian.NewDecoderWithSkip\<close>
  over the body bytes; \<open>Decode\<close> returns a value and an error; an unpacker receives the
  decoder and the caller's result object, and leaves the object as it filled it.
\<close>

datatype Decoder = NewDecoder "byte list" | NewDecoderWithSkip "byte list"

type_synonym decode_fn = "Decoder \<Rightarrow> any \<times> error option"
type_synonym unpack_fn = "Decoder \<Rightarrow> any \<Rightarrow> error option \<times> any"

subsection \<open>Reading the body bytes\<close>

text \<open>
  The streaming loop of \<open>ReadBody\<close> and \<open>ReadAttachments\<close>:
  \<open>for readLen < h.bodyLen { n, err = h.reader.Read(buf[readLen:]); ... readLen += n }\<close>
  over \<open>buf = make([]byte, h.bodyLen)\<close>, so that \<open>buf[readLen:]\<close> has
  \<open>h.bodyLen - readLen\<close> bytes.
\<close>

function readBodyLoop ::
  "int \<Rightarrow> nat \<Rightarrow> byte list \<Rightarrow> Reader \<Rightarrow> (byte list \<times> error option) \<times> Reader" where
  "readBodyLoop len readLen buf r =
     (if int readLen < len then
        (case Read (nat (len - int readLen)) r of
           ((bs, err), r') \<Rightarrow>
             (let buf' = take readLen buf @ bs @ drop (readLen + length bs) buf in
              if err \<noteq> None then ((buf', err), r')
              else readBodyLoop len (readLen + length bs) buf' r'))
      else ((buf, None), r))"
  by pat_completeness auto

lemma rd_Read_progress:
  "rd_Read k src = ((bs, None), src') \<Longrightarrow> 0 < k \<Longrightarrow> bs \<noteq> [] \<or> length src' < length src"
  by (induction k src rule: rd_Read.induct) (auto split: if_splits)

lemma Read_progress:
  "0 < k \<Longrightarrow> Read k b = ((bs, None), b') \<Longrightarrow> bs \<noteq> [] \<or> length (rd b') < length (rd b)"
  by (auto simp: Read_def readErr_def Let_def split: if_splits prod.splits
      dest: rd_Read_progress)

lemma Read_empty_shrinks:
  "(([], None), b') = Read k b \<Longrightarrow> 0 < k \<Longrightarrow> length (rd b') < length (rd b)"
  using Read_progress[of k b "[]" b'] by simp

termination readBodyLoop
proof (relation "(\<lambda>(len, readLen, buf, r). nat (len - int readLen)) <*mlex*>
                 measure (\<lambda>(len, readLen, buf, r). length (rd r))", goal_cases)
  case 1
  show ?case by (simp add: wf_mlex)
next
  case 2
  then show ?case by (auto simp: mlex_prod_def dest: Read_empty_shrinks)
qed

declare readBodyLoop.simps [simp del]

text \<open>
  The first half of \<open>ReadBody\<close>, repeated verbatim in \<open>ReadAttachments\<close>: obtain
  \<open>h.bodyLen\<close> body bytes. The result is the buffer and the error that the function
  returns at this point, if any (\<open>ErrBodyNotEnough\<close> as it is, every other error under
  \<open>perrors.WithStack\<close>). \<open>make([]byte, n)\<close> panics for a negative \<open>n\<close>.
\<close>

definition readBodyBytes :: "HessianCodec \<Rightarrow> ((byte list \<times> error option) \<times> HessianCodec) go" where
  "readBodyBytes h =
     (if stream h then
        (if bodyLen h < 0 then Panic ''makeslice: len out of range''
         else
           (case readBodyLoop (bodyLen h) 0 (replicate (nat (bodyLen h)) 0) (reader h) of
              ((buf, err), r) \<Rightarrow> Return ((buf, perrors_WithStack err), h\<lparr>reader := r\<rparr>)))
      else if Buffered (reader h) < bodyLen h then Return (([], Some ErrBodyNotEnough), h)
      else
        (case Peek (bodyLen h) (reader h) of
           Panic m \<Rightarrow> Panic m
         | Return ((buf, err), r) \<Rightarrow>
             (let h = h\<lparr>reader := r\<rparr> in
              if err \<noteq> None then Return ((buf, perrors_WithStack err), h)
              else
                (case Discard (bodyLen h) (reader h) of
                   Panic m \<Rightarrow> Panic m
                 | Return ((d, err), r) \<Rightarrow>
                     Return ((buf, perrors_WithStack err), h\<lparr>reader := r\<rparr>)))))"

subsection \<open>\<open>ReadBody\<close>\<close>

text \<open>\<open>perrors.Errorf("java exception:%s", exception.(string))\<close>: the type assertion
  panics unless the decoded value is a string.\<close>

definition javaException :: "any \<Rightarrow> error go" where
  "javaException exception =
     (case exception of
        AnyString s \<Rightarrow> Return (Errorf (''java exception:'' @ s))
      | _ \<Rightarrow> Panic ''interface conversion: interface {} is not string'')"

text \<open>
  The result of \<open>ReadBody\<close> is the error returned, the session, and the caller's result
  object as the call leaves it (the object behind a \<open>*DubboResponse\<close> is updated in
  place).
\<close>

definition ReadBody ::
  "decode_fn \<Rightarrow> unpack_fn \<Rightarrow> unpack_fn \<Rightarrow> HessianCodec \<Rightarrow> any
     \<Rightarrow> (error option \<times> HessianCodec \<times> any) go" where
  "ReadBody Decode unpackRequestBody unpackResponseBody h rspObj =
     (case readBodyBytes h of
        Panic m \<Rightarrow> Panic m
      | Return ((buf, err), h) \<Rightarrow>
          if err \<noteq> None then Return (err, h, rspObj)
          else
            (let t = pkgType h AND PackageType_BitSize in
             if t = (PackageResponse OR PackageHeartbeat OR PackageResponse_Exception)
                \<or> t = (PackageResponse OR PackageResponse_Exception)
             then
               (case Decode (NewDecoder buf) of
                  (exception, exceptionErr) \<Rightarrow>
                    if exceptionErr \<noteq> None then Return (perrors_WithStack exceptionErr, h, rspObj)
                    else
                      (case rspObj of
                         AnyResponse rsp \<Rightarrow>
                           (case javaException exception of
                              Panic m \<Rightarrow> Panic m
                            | Return e \<Rightarrow>
                                Return (None, h,
                                  AnyResponse (DubboResponse (RspObj rsp) (Some e) (Attachments rsp))))
                       | _ \<Rightarrow>
                           (case javaException exception of
                              Panic m \<Rightarrow> Panic m
                            | Return e \<Rightarrow> Return (Some e, h, rspObj))))
             else if t = (PackageRequest OR PackageHeartbeat) \<or> t = (PackageResponse OR PackageHeartbeat)
             then Return (None, h, rspObj)
             else if t = PackageRequest then
               (if rspObj \<noteq> AnyNil then
                  (case unpackRequestBody (NewDecoder buf) rspObj of
                     (err, rspObj) \<Rightarrow>
                       if err \<noteq> None then Return (perrors_WithStack err, h, rspObj)
                       else Return (None, h, rspObj))
                else Return (None, h, rspObj))
             else if t = PackageResponse then
               (if rspObj \<noteq> AnyNil then
                  (case unpackResponseBody (NewDecoder buf) rspObj of
                     (err, rspObj) \<Rightarrow>
                       if err \<noteq> None then Return (perrors_WithStack err, h, rspObj)
                       else Return (None, h, rspObj))
                else Return (None, h, rspObj))
             else Return (None, h, rspObj)))"

subsection \<open>\<open>ReadAttachments\<close>\<close>

text \<open>\<open>rspObj[6].(map[string]any)\<close> on the slice that the unpacker filled: indexing
  panics out of range, the type assertion panics unless the element is a map.\<close>

definition attachmentsOf :: "any \<Rightarrow> (string \<times> any) list option go" where
  "attachmentsOf rspObj =
     (case rspObj of
        AnySlice xs \<Rightarrow>
          (if 6 < length xs then
             (case xs ! 6 of
                AnyMap m \<Rightarrow> Return m
              | _ \<Rightarrow> Panic ''interface conversion: interface {} is not map[string]interface {}'')
           else Panic ''index out of range'')
      | _ \<Rightarrow> Panic ''index of a value that is not a slice'')"

definition ReadAttachments ::
  "unpack_fn \<Rightarrow> unpack_fn \<Rightarrow> HessianCodec
     \<Rightarrow> (((string \<times> any) list option \<times> error option) \<times> HessianCodec) go" where
  "ReadAttachments unpackRequestBody unpackResponseBody h =
     (case readBodyBytes h of
        Panic m \<Rightarrow> Panic m
      | Return ((buf, err), h) \<Rightarrow>
          if err \<noteq> None then Return ((None, err), h)
          else
            (let t = pkgType h AND PackageType_BitSize in
             if t = PackageRequest then
               (let rspObj = AnySlice (replicate 7 AnyNil) in
                case unpackRequestBody (NewDecoderWithSkip buf) rspObj of
                  (err, rspObj) \<Rightarrow>
                    if err \<noteq> None then Return ((None, perrors_WithStack err), h)
                    else
                      (case attachmentsOf rspObj of
                         Panic m \<Rightarrow> Panic m
                       | Return m \<Rightarrow> Return ((m, None), h)))
             else if t = PackageResponse then
               (let rspObj = AnyResponse (DubboResponse AnyNil None None) in
                case unpackResponseBody (NewDecoderWithSkip buf) rspObj of
                  (err, rspObj) \<Rightarrow>
                    if err \<noteq> None then Return ((None, perrors_WithStack err), h)
                    else
                      (case rspObj of
                         AnyResponse rsp \<Rightarrow> Return ((Attachments rsp, None), h)
                       | _ \<Rightarrow> Panic ''the response object is not a *DubboResponse''))
             else Return ((None, None), h)))"

subsection \<open>\<open>Write\<close>\<close>

text \<open>
  \<open>packRequest\<close> and \<open>packResponse\<close> are outside the file; they are parameters, and
  return a byte slice (\<open>None\<close> is the nil slice) and an error. \<open>Write\<close> has the session as
  its receiver; the session is returned as the call leaves it.
\<close>

type_synonym packed = "byte list option \<times> error option"

definition Write ::
  "(Service \<Rightarrow> DubboHeader \<Rightarrow> any \<Rightarrow> packed) \<Rightarrow> (DubboHeader \<Rightarrow> any \<Rightarrow> packed)
     \<Rightarrow> HessianCodec \<Rightarrow> Service \<Rightarrow> DubboHeader \<Rightarrow> any \<Rightarrow> packed \<times> HessianCodec" where
  "Write packRequest packResponse h service header body =
     (if Type header = PackageHeartbeat then
        (if ResponseStatus header = Zero then (packRequest service header body, h)
         else (packResponse header body, h))
      else if Type header = PackageRequest \<or> Type header = PackageRequest_TwoWay then
        (packRequest service header body, h)
      else if Type header = PackageResponse then (packResponse header body, h)
      else ((None, Some (Errorf (''Unrecognized message type: '' @ show_int (Type header)))), h))"

section \<open>The header encoding of the specification\<close>





text \<open>The type bitmask that the specification's decoding rule assigns to a flag
  combination and a status byte.\<close>

definition spec_packageType :: "protocol_consts \<Rightarrow> bool \<Rightarrow> bool \<Rightarrow> bool \<Rightarrow> byte \<Rightarrow> PackageType" where
  "spec_packageType c event request twoway status =
     (if event then PackageHeartbeat else 0)
     OR (if request then PackageRequest OR (if twoway then PackageRequest_TwoWay else 0)
         else PackageResponse OR (if status \<noteq> Response_OK c then PackageResponse_Exception else 0))"


text \<open>The constants of the Dubbo protocol, to run the model on concrete frames: magic
  \<open>0xdabb\<close>, the flags \<open>0x80\<close>, \<open>0x40\<close> and \<open>0x20\<close>, and 20 for the OK status.\<close>

definition dubbo_consts :: protocol_consts where
  "dubbo_consts =
     \<lparr>MAGIC_HIGH = 0xda, MAGIC_LOW = 0xbb, FLAG_REQUEST = 0x80, FLAG_TWOWAY = 0x40,
      FLAG_EVENT = 0x20, Response_OK = 20\<rparr>"

section \<open>Concrete inputs\<close>

text \<open>A service descriptor, two packers and a session to run the model on.\<close>

definition demo_service :: Service where
  "demo_service = \<lparr>Path = ''p'', Interface = ''i'', Group = ''g'', Version = ''v'', Method = ''m'', Timeout = 0\<rparr>"

definition demo_packRequest :: "Service \<Rightarrow> DubboHeader \<Rightarrow> any \<Rightarrow> packed" where
  "demo_packRequest service header body = (Some [1, SerialID header], None)"

definition demo_packResponse :: "DubboHeader \<Rightarrow> any \<Rightarrow> packed" where
  "demo_packResponse header body = (Some [2, ResponseStatus header], None)"

definition demo_session :: HessianCodec where
  "demo_session = NewHessianCodec (NewReaderSize [] 16)"

text \<open>
  A decoder and two unpackers to run the model on: the decoder reads the body as
  text, except that a body starting with a zero byte decodes to a value that is not a
  string and an empty body fails; the request unpacker stores an attachment map in the
  seventh slot of the slice it is given (or, for a body starting with a zero byte, a
  value that is not a map); the response unpacker stores the result and an attachment
  map on the response it is given.
\<close>

definition byte_char :: "byte \<Rightarrow> char" where
  "byte_char b = char_of (unat b)"

fun demo_Decode :: decode_fn where
  "demo_Decode (NewDecoder []) = (AnyNil, Some EOF)"
| "demo_Decode (NewDecoder (b # bs)) =
     (if b = 0 then (AnyOther (length bs), None) else (AnyString (map byte_char (b # bs)), None))"
| "demo_Decode (NewDecoderWithSkip bs) = (AnyNil, Some EOF)"

fun decoder_bytes :: "Decoder \<Rightarrow> byte list" where
  "decoder_bytes (NewDecoder bs) = bs"
| "decoder_bytes (NewDecoderWithSkip bs) = bs"

definition demo_attachments :: "byte list \<Rightarrow> (string \<times> any) list option" where
  "demo_attachments bs = Some [(''path'', AnyString (map byte_char bs))]"

fun demo_unpackRequestBody :: unpack_fn where
  "demo_unpackRequestBody d (AnySlice xs) =
     (case decoder_bytes d of
        [] \<Rightarrow> (Some EOF, AnySlice xs)
      | b # bs \<Rightarrow>
          (None, AnySlice (xs[6 := (if b = 0 then AnyString ''no map''
                                    else AnyMap (demo_attachments (b # bs)))])))"
| "demo_unpackRequestBody d obj = (Some (Errorf ''pojo is not a slice''), obj)"

fun demo_unpackResponseBody :: unpack_fn where
  "demo_unpackResponseBody d (AnyResponse rsp) =
     (case decoder_bytes d of
        [] \<Rightarrow> (Some EOF, AnyResponse rsp)
      | b # bs \<Rightarrow>
          (None, AnyResponse (DubboResponse (AnyString (map byte_char (b # bs))) (Exception rsp)
                   (demo_attachments (b # bs)))))"
| "demo_unpackResponseBody d obj = (Some (Errorf ''pojo is not a response''), obj)"

section \<open>Properties\<close>

subsection \<open>Reading from a reader that already buffers the bytes\<close>

lemma Read_buffered:
  "0 < k \<Longrightarrow> k \<le> length (pending b) \<Longrightarrow>
   Read k b = ((take k (pending b), None), b\<lparr>pending := drop k (pending b)\<rparr>)"
  by (auto simp: Read_def)

lemma Peek_buffered:
  "0 \<le> n \<Longrightarrow> nat n \<le> length (pending b) \<Longrightarrow> nat n \<le> bufsize b \<Longrightarrow>
   Peek n b = Return ((take (nat n) (pending b), None), b)"
  by (simp add: Peek_def Peek_fill.simps[of "nat n" b])

lemma Discard_buffered:
  "0 \<le> n \<Longrightarrow> nat n \<le> length (pending b) \<Longrightarrow>
   Discard n b = Return ((n, None), b\<lparr>pending := drop (nat n) (pending b)\<rparr>)"
  by (cases "pending b")
    (auto simp: Discard_def Let_def min_def Discard_loop.simps[of "nat n" "nat n" b])

lemma ReadHeader_front:
  assumes "pending (reader h) = buf @ rest" and "length buf = 16"
    and "stream h \<or> 16 \<le> bufsize (reader h)"
  shows "ReadHeader w c h header =
    Return (decodeHeader w c buf (h\<lparr>reader := (reader h)\<lparr>pending := rest\<rparr>\<rparr>) header)"
proof (cases "stream h")
  case True
  have "Read 16 (reader h) = ((buf, None), (reader h)\<lparr>pending := rest\<rparr>)"
    using assms(1,2) by (simp add: Read_buffered)
  with True assms(2) show ?thesis
    by (simp add: ReadHeader_def HEADER_LENGTH_def Let_def)
next
  case False
  with assms(3) have sz: "16 \<le> bufsize (reader h)" by simp
  have p: "Peek 16 (reader h) = Return ((buf, None), reader h)"
    using assms(1,2) sz by (simp add: Peek_buffered)
  have d: "Discard 16 (reader h) = Return ((16, None), (reader h)\<lparr>pending := rest\<rparr>)"
    using assms(1,2) by (simp add: Discard_buffered)
  from False sz p d show ?thesis
    by (simp add: ReadHeader_def HEADER_LENGTH_def Let_def Size_def)
qed

subsection \<open>Big-endian fields and the flag byte\<close>







subsection \<open>Write\<close>

text \<open>
  Claim C8. \<open>Write\<close> dispatches on the header type: a heartbeat header with response
  status zero goes to \<open>packRequest\<close>, a heartbeat header with another status to
  \<open>packResponse\<close>, a request or two-way request header to \<open>packRequest\<close>, a response
  header to \<open>packResponse\<close>; every other type value yields an error whose message names
  the value; and the session is never modified.
\<close>

theorem C8_Write_dispatch:
  "(Type header = PackageHeartbeat \<and> ResponseStatus header = 0
      \<longrightarrow> Write packRequest packResponse h service header body
          = (packRequest service header body, h))
   \<and> (Type header = PackageHeartbeat \<and> ResponseStatus header \<noteq> 0
      \<longrightarrow> Write packRequest packResponse h service header body = (packResponse header body, h))
   \<and> (Type header = PackageRequest \<or> Type header = PackageRequest_TwoWay
      \<longrightarrow> Write packRequest packResponse h service header body
          = (packRequest service header body, h))
   \<and> (Type header = PackageResponse
      \<longrightarrow> Write packRequest packResponse h service header body = (packResponse header body, h))
   \<and> (Type header \<noteq> PackageHeartbeat \<and> Type header \<noteq> PackageRequest
       \<and> Type header \<noteq> PackageRequest_TwoWay \<and> Type header \<noteq> PackageResponse
      \<longrightarrow> Write packRequest packResponse h service header body
          = ((None, Some (Errorf (''Unrecognized message type: '' @ show_int (Type header)))), h))
   \<and> snd (Write packRequest packResponse h service header body) = h"
  by (simp add: Write_def Zero_def PackageHeartbeat_def PackageRequest_def
      PackageRequest_TwoWay_def PackageResponse_def)

theorem C8_Write_dispatch_witness:
  "Write demo_packRequest demo_packResponse demo_session demo_service
      (empty_header\<lparr>SerialID := 2, Type := PackageHeartbeat\<rparr>) AnyNil
     = ((Some [1, 2], None), demo_session)
   \<and> Write demo_packRequest demo_packResponse demo_session demo_service
      (empty_header\<lparr>Type := PackageHeartbeat, ResponseStatus := 20\<rparr>) AnyNil
     = ((Some [2, 20], None), demo_session)
   \<and> Write demo_packRequest demo_packResponse demo_session demo_service
      (empty_header\<lparr>SerialID := 2, Type := PackageRequest_TwoWay\<rparr>) AnyNil
     = ((Some [1, 2], None), demo_session)
   \<and> Write demo_packRequest demo_packResponse demo_session demo_service
      (empty_header\<lparr>Type := PackageResponse, ResponseStatus := 20\<rparr>) AnyNil
     = ((Some [2, 20], None), demo_session)
   \<and> Write demo_packRequest demo_packResponse demo_session demo_service
      (empty_header\<lparr>Type := PackageRequest OR PackageRequest_TwoWay\<rparr>) AnyNil
     = ((None, Some (Errorf ''Unrecognized message type: 18'')), demo_session)"
proof -
  have s: "show_int 18 = ''18''" by code_simp
  have t: "PackageRequest OR PackageRequest_TwoWay = 18"
    by (simp add: PackageRequest_def PackageRequest_TwoWay_def)
  show ?thesis
    using C8_Write_dispatch[where header = "empty_header\<lparr>SerialID := 2, Type := PackageHeartbeat\<rparr>"
        and packRequest = demo_packRequest and packResponse = demo_packResponse
        and h = demo_session and service = demo_service and body = AnyNil]
      C8_Write_dispatch[where header = "empty_header\<lparr>Type := PackageHeartbeat, ResponseStatus := 20\<rparr>"
        and packRequest = demo_packRequest and packResponse = demo_packResponse
        and h = demo_session and service = demo_service and body = AnyNil]
      C8_Write_dispatch[where header = "empty_header\<lparr>SerialID := 2, Type := PackageRequest_TwoWay\<rparr>"
        and packRequest = demo_packRequest and packResponse = demo_packResponse
        and h = demo_session and service = demo_service and body = AnyNil]
      C8_Write_dispatch[where header = "empty_header\<lparr>Type := PackageResponse, ResponseStatus := 20\<rparr>"
        and packRequest = demo_packRequest and packResponse = demo_packResponse
        and h = demo_session and service = demo_service and body = AnyNil]
      C8_Write_dispatch[where header = "empty_header\<lparr>Type := PackageRequest OR PackageRequest_TwoWay\<rparr>"
        and packRequest = demo_packRequest and packResponse = demo_packResponse
        and h = demo_session and service = demo_service and body = AnyNil]
    by (simp add: s t empty_header_def demo_packRequest_def demo_packResponse_def
        PackageHeartbeat_def PackageRequest_def PackageRequest_TwoWay_def PackageResponse_def)
qed

subsection \<open>\<open>ReadHeader\<close>: the magic bytes\<close>

text \<open>
  Claim C1 says that \<open>ReadHeader\<close> fails with the "illegal package" error whenever byte 0
  is not \<open>MAGIC_HIGH\<close> or byte 1 is not \<open>MAGIC_LOW\<close>. The check in the code is
  \<open>buf[0] != MAGIC_HIGH && buf[1] != MAGIC_LOW\<close>, which rejects a header only when both
  bytes are wrong. The two frames below carry one right and one wrong magic byte, and
  \<open>ReadHeader\<close> accepts both of them as a two-way request.
\<close>

theorem C1_half_magic_accepted:
  "ReadHeader Int64 dubbo_consts
      (NewHessianCodec (NewReaderSize [Data [0xda, 0x00, 0xc2, 0, 0,0,0,0,0,0,0,1, 0,0,0,0]] 16))
      empty_header
     = Return (None,
         \<lparr>pkgType = 18, reader = \<lparr>bufsize = 16, pending = [], rerr = None, rd = []\<rparr>,
          bodyLen = 0, stream = False\<rparr>,
         \<lparr>SerialID = 2, Type = 18, ID = 1, BodyLen = 0, ResponseStatus = 0\<rparr>)
   \<and> ReadHeader Int64 dubbo_consts
      (NewHessianCodec (NewReaderSize [Data [0x00, 0xbb, 0xc2, 0, 0,0,0,0,0,0,0,1, 0,0,0,0]] 16))
      empty_header
     = Return (None,
         \<lparr>pkgType = 18, reader = \<lparr>bufsize = 16, pending = [], rerr = None, rd = []\<rparr>,
          bodyLen = 0, stream = False\<rparr>,
         \<lparr>SerialID = 2, Type = 18, ID = 1, BodyLen = 0, ResponseStatus = 0\<rparr>)"
  by code_simp

subsection \<open>\<open>ReadHeader\<close> in buffered mode: fewer than 16 bytes\<close>

text \<open>
  Claim C3 says that in buffered mode \<open>ReadHeader\<close> returns "header not enough", and
  consumes nothing, whenever fewer than 16 bytes are available. The code compares
  \<open>h.reader.Size()\<close>, the capacity of the reader's buffer, with 16, not the count of
  buffered bytes. With three bytes buffered in a reader of capacity 16, the call goes
  on to \<open>Peek\<close>: on an exhausted source it returns the wrapped \<open>io.EOF\<close>, and when the
  source delivers 13 more bytes it succeeds and consumes the 16 bytes.
\<close>

theorem C3_short_buffer_not_header_not_enough:
  "ReadHeader Int64 dubbo_consts
      (NewHessianCodec \<lparr>bufsize = 16, pending = [0xda, 0xbb, 0xc2], rerr = None, rd = []\<rparr>)
      empty_header
     = Return (Some (WithStack EOF),
         \<lparr>pkgType = 0,
          reader = \<lparr>bufsize = 16, pending = [0xda, 0xbb, 0xc2], rerr = None, rd = []\<rparr>,
          bodyLen = 0, stream = False\<rparr>,
         empty_header)
   \<and> Buffered \<lparr>bufsize = 16, pending = [0xda, 0xbb, 0xc2], rerr = None, rd = []\<rparr> = 3
   \<and> ReadHeader Int64 dubbo_consts
      (NewHessianCodec \<lparr>bufsize = 16, pending = [0xda, 0xbb, 0xc2], rerr = None,
         rd = [Data [0, 0,0,0,0,0,0,0,1, 0,0,0,0]]\<rparr>)
      empty_header
     = Return (None,
         \<lparr>pkgType = 18, reader = \<lparr>bufsize = 16, pending = [], rerr = None, rd = []\<rparr>,
          bodyLen = 0, stream = False\<rparr>,
         \<lparr>SerialID = 2, Type = 18, ID = 1, BodyLen = 0, ResponseStatus = 0\<rparr>)"
  by code_simp

subsection \<open>\<open>ReadHeader\<close> in streaming mode: short reads\<close>

text \<open>
  Claim C4 says that in streaming mode all 16 header bytes have been filled when
  \<open>ReadHeader\<close> succeeds. The code reads once more when the first read was short, and
  drops the count of that second read. On a source that delivers 4 bytes, 4 bytes and
  then the remaining 8, the header is decoded from the first 8 bytes and 8 zero bytes:
  the call succeeds, the request id is \<open>0x700000000\<close> instead of 7, the body length 0
  instead of 9, and the last 8 header bytes are left in the source.
\<close>

theorem C4_stream_header_partly_filled:
  "ReadHeader Int64 dubbo_consts
      (NewStreamHessianCodecCustom 0
         (NewReaderSize [Data [0xda, 0xbb, 0xc2, 0], Data [0, 0, 0, 7], Data [0,0,0,0,0,0,0,9]] 4096) 0)
      empty_header
     = Return (None,
         \<lparr>pkgType = 18,
          reader = \<lparr>bufsize = 4096, pending = [], rerr = None, rd = [Data [0,0,0,0,0,0,0,9]]\<rparr>,
          bodyLen = 0, stream = True\<rparr>,
         \<lparr>SerialID = 2, Type = 18, ID = 0x700000000, BodyLen = 0, ResponseStatus = 0\<rparr>)"
  by code_simp

subsection \<open>\<open>ReadHeader\<close>: a negative body length\<close>

text \<open>
  Claim C5 says that every 16-byte header whose big-endian body-length field is
  negative as a signed 32-bit value makes \<open>ReadHeader\<close> fail with the "illegal package"
  error. The code converts the field with \<open>int(binary.BigEndian.Uint32(buf[12:]))\<close> and
  then tests \<open>header.BodyLen < 0\<close>. Where \<open>int\<close> is 64 bits wide the converted value is
  never negative and the test cannot fire: the frame below, with correct magic,
  serialization id 2 and the length field \<open>0x80000000\<close>, is accepted in streaming mode
  with a body length of 2147483648, and in buffered mode it is answered with "body not
  enough", the same body length recorded on the session.
\<close>

theorem C5_negative_length_accepted_Int64:
  "sint (BigEndian_Uint32 [0x80, 0, 0, 0]) < 0
   \<and> ReadHeader Int64 dubbo_consts
      (NewStreamHessianCodecCustom 0
         (NewReaderSize [Data [0xda, 0xbb, 0xc2, 0, 0,0,0,0,0,0,0,1, 0x80,0,0,0]] 16) 0)
      empty_header
     = Return (None,
         \<lparr>pkgType = 18, reader = \<lparr>bufsize = 16, pending = [], rerr = None, rd = []\<rparr>,
          bodyLen = 2147483648, stream = True\<rparr>,
         \<lparr>SerialID = 2, Type = 18, ID = 1, BodyLen = 2147483648, ResponseStatus = 0\<rparr>)
   \<and> ReadHeader Int64 dubbo_consts
      (NewHessianCodec
         (NewReaderSize [Data [0xda, 0xbb, 0xc2, 0, 0,0,0,0,0,0,0,1, 0x80,0,0,0]] 16))
      empty_header
     = Return (Some ErrBodyNotEnough,
         \<lparr>pkgType = 18, reader = \<lparr>bufsize = 16, pending = [], rerr = None, rd = []\<rparr>,
          bodyLen = 2147483648, stream = False\<rparr>,
         \<lparr>SerialID = 2, Type = 18, ID = 1, BodyLen = 2147483648, ResponseStatus = 0\<rparr>)"
  by code_simp

text \<open>
  In general: with a 64-bit \<open>int\<close>, no header that passes the magic check is ever
  rejected as an illegal package, whatever its length field. With a 32-bit \<open>int\<close> the
  test works: a header with a non-zero serialization id and a negative length field is
  rejected as an illegal package.
\<close>

lemma ReadHeader_Int64_body_length_check_dead:
  assumes "pending (reader h) = buf @ rest" and "length buf = 16"
    and "stream h \<or> 16 \<le> bufsize (reader h)"
    and "buf ! 0 = MAGIC_HIGH c \<or> buf ! 1 = MAGIC_LOW c"
  shows "\<exists>e h' header'. ReadHeader Int64 c h header = Return (e, h', header')
    \<and> e \<noteq> Some ErrIllegalPackage"
  unfolding ReadHeader_front[OF assms(1,2,3)] using assms(4)
  by (auto simp: decodeHeader_def Let_def Zero_def int_of_uint32_def)

lemma ReadHeader_Int32_negative_body_length:
  assumes "pending (reader h) = buf @ rest" and "length buf = 16"
    and "stream h \<or> 16 \<le> bufsize (reader h)"
    and "buf ! 2 AND SERIAL_MASK \<noteq> 0"
    and "sint (BigEndian_Uint32 (drop 12 buf)) < 0"
  shows "\<exists>header'. ReadHeader Int32 c h header
           = Return (Some ErrIllegalPackage, h\<lparr>reader := (reader h)\<lparr>pending := rest\<rparr>\<rparr>, header')"
  unfolding ReadHeader_front[OF assms(1,2,3)]
  using assms(4,5)
  by (simp add: decodeHeader_def Let_def Zero_def int_of_uint32_def)

subsection \<open>\<open>ReadHeader\<close>: decoding an encoded header\<close>








subsection \<open>\<open>ReadHeader\<close> and \<open>ReadBody\<close> in buffered mode: the body is not buffered yet\<close>

lemma ReadBody_not_enough:
  "\<not> stream h \<Longrightarrow> Buffered (reader h) < bodyLen h \<Longrightarrow>
   ReadBody D U1 U2 h obj = Return (Some ErrBodyNotEnough, h, obj)"
  by (simp add: ReadBody_def readBodyBytes_def)

lemma decodeHeader_passes:
  assumes "buf ! 0 = MAGIC_HIGH c \<or> buf ! 1 = MAGIC_LOW c"
    and "buf ! 2 AND SERIAL_MASK \<noteq> 0"
    and "0 \<le> int_of_uint32 w (BigEndian_Uint32 (drop 12 buf))"
  shows "\<exists>T st. decodeHeader w c buf h header =
     ((if Buffered (reader h) < int_of_uint32 w (BigEndian_Uint32 (drop 12 buf)) \<and> \<not> stream h
       then Some ErrBodyNotEnough else None),
      h\<lparr>pkgType := T, bodyLen := int_of_uint32 w (BigEndian_Uint32 (drop 12 buf))\<rparr>,
      \<lparr>SerialID = buf ! 2 AND SERIAL_MASK, Type = T, ID = BigEndian_Uint64 (drop 4 buf),
       BodyLen = int_of_uint32 w (BigEndian_Uint32 (drop 12 buf)), ResponseStatus = st\<rparr>)"
  using assms by (cases header) (auto simp: decodeHeader_def Let_def Zero_def)

lemma Peek_result:
  "Peek n b = Return ((bs, None), b') \<Longrightarrow>
   0 \<le> n \<and> bs = take (nat n) (pending b') \<and> nat n \<le> length (pending b')"
  by (auto simp: Peek_def readErr_def split: if_splits go.splits)

lemma ReadHeader_buffered:
  assumes "\<not> stream h" and "16 \<le> Size (reader h)"
    and "Peek 16 (reader h) = Return ((buf, None), r)"
  shows "ReadHeader w c h header =
    Return (decodeHeader w c buf (h\<lparr>reader := r\<lparr>pending := drop 16 (pending r)\<rparr>\<rparr>) header)"
proof -
  from Peek_result[OF assms(3)] have "nat 16 \<le> length (pending r)" by simp
  then have d: "Discard 16 r = Return ((16, None), r\<lparr>pending := drop 16 (pending r)\<rparr>)"
    using Discard_buffered[of 16 r] by simp
  from assms(1,2) show ?thesis
    by (simp add: ReadHeader_def HEADER_LENGTH_def assms(3) d Let_def)
qed

lemma decodeHeader_fields:
  assumes "buf ! 0 = MAGIC_HIGH c \<or> buf ! 1 = MAGIC_LOW c"
    and "buf ! 2 AND SERIAL_MASK \<noteq> 0"
    and "0 \<le> int_of_uint32 w (BigEndian_Uint32 (drop 12 buf))"
  shows "decodeHeader w c buf h header =
     ((if Buffered (reader h) < int_of_uint32 w (BigEndian_Uint32 (drop 12 buf)) \<and> \<not> stream h
       then Some ErrBodyNotEnough else None),
      h\<lparr>pkgType := Type header OR spec_packageType c (buf ! 2 AND FLAG_EVENT c \<noteq> 0)
             (buf ! 2 AND FLAG_REQUEST c \<noteq> 0) (buf ! 2 AND FLAG_TWOWAY c \<noteq> 0) (buf ! 3),
        bodyLen := int_of_uint32 w (BigEndian_Uint32 (drop 12 buf))\<rparr>,
      \<lparr>SerialID = buf ! 2 AND SERIAL_MASK,
       Type = Type header OR spec_packageType c (buf ! 2 AND FLAG_EVENT c \<noteq> 0)
             (buf ! 2 AND FLAG_REQUEST c \<noteq> 0) (buf ! 2 AND FLAG_TWOWAY c \<noteq> 0) (buf ! 3),
       ID = BigEndian_Uint64 (drop 4 buf),
       BodyLen = int_of_uint32 w (BigEndian_Uint32 (drop 12 buf)),
       ResponseStatus = (if buf ! 2 AND FLAG_REQUEST c \<noteq> 0 then ResponseStatus header else buf ! 3)\<rparr>)"
  using assms
  by (cases header) (auto simp: decodeHeader_def Let_def Zero_def spec_packageType_def or.assoc)

text \<open>
  Claim C6. In buffered mode, let the reader (of capacity at least 16, in whatever
  state: the bytes may be buffered already or still to be read from the source) supply
  the 16 header bytes \<open>buf\<close> to \<open>Peek\<close>, and let the header decode: the magic check
  passes, the serialization id is not zero, the body length is not negative. When
  fewer bytes than the decoded body length are buffered behind the header,
  \<open>ReadHeader\<close> returns "body not enough", with every field of the header populated
  (the serialization id, the type bitmask that the decoding rule gives to the flag
  bits and the status byte, or-ed onto the type the header came with, the request id,
  the body length, and the status byte on a response frame), and with that package type
  and body length recorded on the session. \<open>ReadBody\<close> on that session returns "body
  not enough" again, leaving session and result object as they are, for every state of
  the reader that buffers fewer bytes than the body length.
\<close>

theorem C6_body_not_enough:
  assumes "\<not> stream h" and "16 \<le> Size (reader h)"
    and "Peek 16 (reader h) = Return ((buf, None), r)"
    and "buf ! 0 = MAGIC_HIGH c \<or> buf ! 1 = MAGIC_LOW c"
    and "buf ! 2 AND SERIAL_MASK \<noteq> 0"
    and "0 \<le> int_of_uint32 w (BigEndian_Uint32 (drop 12 buf))"
    and "Buffered (r\<lparr>pending := drop 16 (pending r)\<rparr>)
          < int_of_uint32 w (BigEndian_Uint32 (drop 12 buf))"
  shows "ReadHeader w c h header =
      Return (Some ErrBodyNotEnough,
        h\<lparr>reader := r\<lparr>pending := drop 16 (pending r)\<rparr>,
          pkgType := Type header OR spec_packageType c (buf ! 2 AND FLAG_EVENT c \<noteq> 0)
             (buf ! 2 AND FLAG_REQUEST c \<noteq> 0) (buf ! 2 AND FLAG_TWOWAY c \<noteq> 0) (buf ! 3),
          bodyLen := int_of_uint32 w (BigEndian_Uint32 (drop 12 buf))\<rparr>,
        \<lparr>SerialID = buf ! 2 AND SERIAL_MASK,
         Type = Type header OR spec_packageType c (buf ! 2 AND FLAG_EVENT c \<noteq> 0)
             (buf ! 2 AND FLAG_REQUEST c \<noteq> 0) (buf ! 2 AND FLAG_TWOWAY c \<noteq> 0) (buf ! 3),
         ID = BigEndian_Uint64 (drop 4 buf),
         BodyLen = int_of_uint32 w (BigEndian_Uint32 (drop 12 buf)),
         ResponseStatus =
           (if buf ! 2 AND FLAG_REQUEST c \<noteq> 0 then ResponseStatus header else buf ! 3)\<rparr>)
    \<and> (\<forall>r' obj Decode unpackRequestBody unpackResponseBody.
          Buffered r' < int_of_uint32 w (BigEndian_Uint32 (drop 12 buf)) \<longrightarrow>
          ReadBody Decode unpackRequestBody unpackResponseBody
            (h\<lparr>reader := r',
               pkgType := Type header OR spec_packageType c (buf ! 2 AND FLAG_EVENT c \<noteq> 0)
                 (buf ! 2 AND FLAG_REQUEST c \<noteq> 0) (buf ! 2 AND FLAG_TWOWAY c \<noteq> 0) (buf ! 3),
               bodyLen := int_of_uint32 w (BigEndian_Uint32 (drop 12 buf))\<rparr>) obj
            = Return (Some ErrBodyNotEnough,
                h\<lparr>reader := r',
                  pkgType := Type header OR spec_packageType c (buf ! 2 AND FLAG_EVENT c \<noteq> 0)
                    (buf ! 2 AND FLAG_REQUEST c \<noteq> 0) (buf ! 2 AND FLAG_TWOWAY c \<noteq> 0) (buf ! 3),
                  bodyLen := int_of_uint32 w (BigEndian_Uint32 (drop 12 buf))\<rparr>, obj))"
proof -
  let ?L = "int_of_uint32 w (BigEndian_Uint32 (drop 12 buf))"
  have later: "ReadBody D U1 U2 (h\<lparr>reader := r', pkgType := T, bodyLen := ?L\<rparr>) obj
      = Return (Some ErrBodyNotEnough, h\<lparr>reader := r', pkgType := T, bodyLen := ?L\<rparr>, obj)"
    if "Buffered r' < ?L" for r' obj D U1 U2 T
    using that assms(1) by (intro ReadBody_not_enough) simp_all
  show ?thesis
    unfolding ReadHeader_buffered[OF assms(1,2,3)] decodeHeader_fields[OF assms(4,5,6)]
    using assms(1,7) later by simp
qed

theorem C6_body_not_enough_witness:
  "ReadHeader Int64 dubbo_consts
      (NewHessianCodec
         (NewReaderSize [Data ([0xda, 0xbb, 0x22, 40, 0,0,0,0,0,0,0,1, 0,0,0,3] @ [7, 8])] 18))
      empty_header
     = Return (Some ErrBodyNotEnough,
         \<lparr>pkgType = 44, reader = \<lparr>bufsize = 18, pending = [7, 8], rerr = None, rd = []\<rparr>,
          bodyLen = 3, stream = False\<rparr>,
         \<lparr>SerialID = 2, Type = 44, ID = 1, BodyLen = 3, ResponseStatus = 40\<rparr>)
   \<and> ReadBody demo_Decode demo_unpackRequestBody demo_unpackResponseBody
        \<lparr>pkgType = 44, reader = \<lparr>bufsize = 18, pending = [7, 8], rerr = None, rd = []\<rparr>,
         bodyLen = 3, stream = False\<rparr> (AnyResponse (DubboResponse AnyNil None None))
     = Return (Some ErrBodyNotEnough,
         \<lparr>pkgType = 44, reader = \<lparr>bufsize = 18, pending = [7, 8], rerr = None, rd = []\<rparr>,
          bodyLen = 3, stream = False\<rparr>, AnyResponse (DubboResponse AnyNil None None))"
proof -
  let ?buf = "[0xda, 0xbb, 0x22, 40, 0,0,0,0,0,0,0,1, 0,0,0,3] :: byte list"
  let ?h = "NewHessianCodec (NewReaderSize [Data (?buf @ [7, 8])] 18)"
  let ?r = "\<lparr>bufsize = 18, pending = ?buf @ [7, 8], rerr = None, rd = []\<rparr>"
  have a: "\<not> stream ?h" "16 \<le> Size (reader ?h)"
    "Peek 16 (reader ?h) = Return ((?buf, None), ?r)"
    by code_simp+
  have b: "?buf ! 0 = MAGIC_HIGH dubbo_consts \<or> ?buf ! 1 = MAGIC_LOW dubbo_consts"
    "?buf ! 2 AND SERIAL_MASK \<noteq> 0"
    "0 \<le> int_of_uint32 Int64 (BigEndian_Uint32 (drop 12 ?buf))"
    "Buffered (?r\<lparr>pending := drop 16 (pending ?r)\<rparr>)
       < int_of_uint32 Int64 (BigEndian_Uint32 (drop 12 ?buf))"
    by code_simp+
  note c = C6_body_not_enough[OF a b, of empty_header]
  have r: "Buffered \<lparr>bufsize = 18, pending = [7, 8], rerr = None, rd = []\<rparr>
      < int_of_uint32 Int64 (BigEndian_Uint32 (drop 12 ?buf))"
    by code_simp
  note d = c[THEN conjunct2, rule_format, OF r, of demo_Decode
        demo_unpackRequestBody demo_unpackResponseBody "AnyResponse (DubboResponse AnyNil None None)"]
  from c[THEN conjunct1] d show ?thesis
    by (simp add: NewHessianCodec_def NewReaderSize_def empty_header_def dubbo_consts_def
        spec_packageType_def PackageHeartbeat_def PackageRequest_def PackageRequest_TwoWay_def
        PackageResponse_def PackageResponse_Exception_def SERIAL_MASK_def int_of_uint32_def
        BigEndian_Uint32_def BigEndian_Uint64_def)
qed

subsection \<open>Obtaining the body bytes\<close>

lemma Read_length: "Read k b = ((bs, e), b') \<Longrightarrow> length bs \<le> k"
  by (auto simp: Read_def readErr_def Let_def split: if_splits prod.splits dest: rd_Read_length)

lemma readBodyLoop_length:
  "readBodyLoop len readLen buf r = ((buf', e), r') \<Longrightarrow> length buf = nat len \<Longrightarrow>
   length buf' = nat len"
proof (induction len readLen buf r rule: readBodyLoop.induct)
  case (1 len readLen buf r)
  note step = readBodyLoop.simps[of len readLen buf r]
  show ?case
  proof (cases "int readLen < len")
    case False
    with "1.prems" step show ?thesis by simp
  next
    case True
    obtain bs err r1 where R: "Read (nat (len - int readLen)) r = ((bs, err), r1)"
      by (metis prod.exhaust)
    from Read_length[OF R] have le: "length bs \<le> nat (len - int readLen)" .
    let ?buf1 = "take readLen buf @ bs @ drop (readLen + length bs) buf"
    have l1: "length ?buf1 = nat len"
      using le True "1.prems"(2) by simp
    show ?thesis
    proof (cases "err = None")
      case False
      with "1.prems"(1) True R step have "buf' = ?buf1" by (auto simp: Let_def)
      with l1 show ?thesis by simp
    next
      case None: True
      from "1.prems"(1) True R None step
      have rec: "readBodyLoop len (readLen + length bs) ?buf1 r1 = ((buf', e), r')"
        by (simp add: Let_def)
      have nn: "\<not> err \<noteq> None" using None by simp
      from "1.IH"[OF True R[symmetric] refl refl nn rec l1]
      show ?thesis .
    qed
  qed
qed

lemma Peek_length:
  "Peek n b = Return ((bs, None), b') \<Longrightarrow> length bs = nat n"
  by (auto simp: Peek_def readErr_def split: if_splits go.splits)

lemma readBodyBytes_frame:
  "readBodyBytes h = Return ((buf, e), h') \<Longrightarrow>
   pkgType h' = pkgType h \<and> bodyLen h' = bodyLen h \<and> stream h' = stream h"
  unfolding readBodyBytes_def
  by (auto simp: Let_def split: if_splits go.splits prod.splits)

lemma readBodyBytes_length:
  assumes "readBodyBytes h = Return ((buf, None), h')"
  shows "length buf = nat (bodyLen h)"
proof (cases "stream h")
  case True
  with assms obtain e r where
    "readBodyLoop (bodyLen h) 0 (replicate (nat (bodyLen h)) 0) (reader h) = ((buf, e), r)"
    by (auto simp: readBodyBytes_def split: if_splits prod.splits)
  from readBodyLoop_length[OF this] show ?thesis by simp
next
  case False
  with assms obtain r where "Peek (bodyLen h) (reader h) = Return ((buf, None), r)"
    by (auto simp: readBodyBytes_def Let_def perrors_WithStack_def
        split: if_splits go.splits prod.splits)
  from Peek_length[OF this] show ?thesis .
qed

subsection \<open>\<open>ReadBody\<close>: the exception branch\<close>

text \<open>
  Claim C7. When the session's package type masked by \<open>0x2f\<close> is response+exception,
  with or without the heartbeat bit, and the body bytes have been obtained, \<open>ReadBody\<close>
  decodes the body as one value; for a decoded string \<open>s\<close>: if the caller's result
  object is a \<open>*DubboResponse\<close>, the exception "java exception:s" is stored on it and the
  call returns nil; for every other result object the call returns the error
  "java exception:s" and leaves the object as it is.
\<close>

theorem C7_exception_response:
  assumes "pkgType h AND PackageType_BitSize = (PackageResponse OR PackageResponse_Exception)
      \<or> pkgType h AND PackageType_BitSize
          = (PackageResponse OR PackageHeartbeat OR PackageResponse_Exception)"
    and "readBodyBytes h = Return ((buf, None), h')"
    and "Decode (NewDecoder buf) = (AnyString s, None)"
  shows "ReadBody Decode unpackRequestBody unpackResponseBody h (AnyResponse rsp)
      = Return (None, h',
          AnyResponse (DubboResponse (RspObj rsp) (Some (Errorf (''java exception:'' @ s)))
            (Attachments rsp)))
    \<and> ((\<forall>r. rspObj \<noteq> AnyResponse r) \<longrightarrow>
        ReadBody Decode unpackRequestBody unpackResponseBody h rspObj
          = Return (Some (Errorf (''java exception:'' @ s)), h', rspObj))"
proof -
  from readBodyBytes_frame[OF assms(2)] have t: "pkgType h' = pkgType h" by simp
  from assms(1) have m: "pkgType h' AND PackageType_BitSize
        = (PackageResponse OR PackageHeartbeat OR PackageResponse_Exception)
      \<or> pkgType h' AND PackageType_BitSize = (PackageResponse OR PackageResponse_Exception)"
    unfolding t by blast
  show ?thesis
    using m assms(3)
    by (cases rspObj) (simp_all add: ReadBody_def assms(2) Let_def javaException_def)
qed

theorem C7_exception_response_witness:
  "ReadBody demo_Decode demo_unpackRequestBody demo_unpackResponseBody
      \<lparr>pkgType = 36, reader = \<lparr>bufsize = 32, pending = [111, 111, 109, 9], rerr = None, rd = []\<rparr>,
       bodyLen = 3, stream = False\<rparr>
      (AnyResponse (DubboResponse AnyNil None None))
     = Return (None,
         \<lparr>pkgType = 36, reader = \<lparr>bufsize = 32, pending = [9], rerr = None, rd = []\<rparr>,
          bodyLen = 3, stream = False\<rparr>,
         AnyResponse (DubboResponse AnyNil (Some (Errorf ''java exception:oom'')) None))
   \<and> ReadBody demo_Decode demo_unpackRequestBody demo_unpackResponseBody
      \<lparr>pkgType = 36, reader = \<lparr>bufsize = 32, pending = [111, 111, 109, 9], rerr = None, rd = []\<rparr>,
       bodyLen = 3, stream = False\<rparr>
      (AnySlice [])
     = Return (Some (Errorf ''java exception:oom''),
         \<lparr>pkgType = 36, reader = \<lparr>bufsize = 32, pending = [9], rerr = None, rd = []\<rparr>,
          bodyLen = 3, stream = False\<rparr>,
         AnySlice [])"
proof -
  let ?h = "\<lparr>pkgType = 36, reader = \<lparr>bufsize = 32, pending = [111, 111, 109, 9], rerr = None, rd = []\<rparr>,
       bodyLen = 3, stream = False\<rparr>"
  let ?h' = "\<lparr>pkgType = 36, reader = \<lparr>bufsize = 32, pending = [9], rerr = None, rd = []\<rparr>,
          bodyLen = 3, stream = False\<rparr>"
  have a: "pkgType ?h AND PackageType_BitSize = (PackageResponse OR PackageResponse_Exception)
      \<or> pkgType ?h AND PackageType_BitSize
          = (PackageResponse OR PackageHeartbeat OR PackageResponse_Exception)"
    by code_simp
  have b: "readBodyBytes ?h = Return (([111, 111, 109], None), ?h')" by code_simp
  have c: "demo_Decode (NewDecoder [111, 111, 109]) = (AnyString ''oom'', None)" by code_simp
  show ?thesis
    using C7_exception_response[where h = ?h and h' = ?h' and buf = "[111, 111, 109]"
        and Decode = demo_Decode and s = "''oom''" and rsp = "DubboResponse AnyNil None None"
        and rspObj = "AnySlice []" and unpackRequestBody = demo_unpackRequestBody
        and unpackResponseBody = demo_unpackResponseBody, OF a b c]
    by simp
qed

subsection \<open>\<open>ReadAttachments\<close>: what is returned\<close>

text \<open>
  Claim C9. Once \<open>ReadAttachments\<close> has obtained the body, which is exactly
  \<open>bodyLen\<close> bytes long: on a request frame (masked type equal to the request bit) it
  returns the seventh element of the slice that the request unpacker filled, as the
  attachment map; on a response frame (masked type equal to the response bit) the
  \<open>Attachments\<close> field of the response that the response unpacker filled; on every
  other masked type the nil map and the nil error.
\<close>

theorem C9_ReadAttachments:
  assumes "readBodyBytes h = Return ((buf, None), h')"
  shows "length buf = nat (bodyLen h)
    \<and> (pkgType h AND PackageType_BitSize = PackageRequest
        \<and> unpackRequestBody (NewDecoderWithSkip buf) (AnySlice (replicate 7 AnyNil))
            = (None, AnySlice xs)
        \<and> length xs = 7 \<and> xs ! 6 = AnyMap m
       \<longrightarrow> ReadAttachments unpackRequestBody unpackResponseBody h = Return ((m, None), h'))
    \<and> (pkgType h AND PackageType_BitSize = PackageResponse
        \<and> unpackResponseBody (NewDecoderWithSkip buf) (AnyResponse (DubboResponse AnyNil None None))
            = (None, AnyResponse rsp)
       \<longrightarrow> ReadAttachments unpackRequestBody unpackResponseBody h
            = Return ((Attachments rsp, None), h'))
    \<and> (pkgType h AND PackageType_BitSize \<noteq> PackageRequest
        \<and> pkgType h AND PackageType_BitSize \<noteq> PackageResponse
       \<longrightarrow> ReadAttachments unpackRequestBody unpackResponseBody h = Return ((None, None), h'))"
proof -
  from readBodyBytes_frame[OF assms] have t: "pkgType h' = pkgType h" by simp
  have req: "PackageRequest \<noteq> PackageResponse"
    by (simp add: PackageRequest_def PackageResponse_def)
  show ?thesis
    using readBodyBytes_length[OF assms] req
    by (simp add: ReadAttachments_def assms Let_def attachmentsOf_def t)
qed

theorem C9_ReadAttachments_witness:
  "ReadAttachments demo_unpackRequestBody demo_unpackResponseBody
      (NewStreamHessianCodecCustom 18 (NewReaderSize [Data [47], Data [97, 98, 5]] 16) 3)
     = Return ((Some [(''path'', AnyString ''/ab'')], None),
         \<lparr>pkgType = 18, reader = \<lparr>bufsize = 16, pending = [5], rerr = None, rd = []\<rparr>,
          bodyLen = 3, stream = True\<rparr>)
   \<and> ReadAttachments demo_unpackRequestBody demo_unpackResponseBody
      \<lparr>pkgType = 4, reader = \<lparr>bufsize = 32, pending = [47, 97, 98, 5], rerr = None, rd = []\<rparr>,
       bodyLen = 3, stream = False\<rparr>
     = Return ((Some [(''path'', AnyString ''/ab'')], None),
         \<lparr>pkgType = 4, reader = \<lparr>bufsize = 32, pending = [5], rerr = None, rd = []\<rparr>,
          bodyLen = 3, stream = False\<rparr>)
   \<and> ReadAttachments demo_unpackRequestBody demo_unpackResponseBody
      \<lparr>pkgType = 10, reader = \<lparr>bufsize = 32, pending = [47, 97, 98, 5], rerr = None, rd = []\<rparr>,
       bodyLen = 3, stream = False\<rparr>
     = Return ((None, None),
         \<lparr>pkgType = 10, reader = \<lparr>bufsize = 32, pending = [5], rerr = None, rd = []\<rparr>,
          bodyLen = 3, stream = False\<rparr>)
   \<and> length [47, 97, 98 :: byte] = nat 3"
proof -
  let ?h1 = "NewStreamHessianCodecCustom 18 (NewReaderSize [Data [47], Data [97, 98, 5]] 16) 3"
  let ?h1' = "\<lparr>pkgType = 18, reader = \<lparr>bufsize = 16, pending = [5], rerr = None, rd = []\<rparr>,
          bodyLen = 3, stream = True\<rparr>"
  let ?h2 = "\<lparr>pkgType = 4, reader = \<lparr>bufsize = 32, pending = [47, 97, 98, 5], rerr = None, rd = []\<rparr>,
       bodyLen = 3, stream = False\<rparr>"
  let ?h2' = "\<lparr>pkgType = 4, reader = \<lparr>bufsize = 32, pending = [5], rerr = None, rd = []\<rparr>,
          bodyLen = 3, stream = False\<rparr>"
  let ?h3 = "\<lparr>pkgType = 10, reader = \<lparr>bufsize = 32, pending = [47, 97, 98, 5], rerr = None, rd = []\<rparr>,
       bodyLen = 3, stream = False\<rparr>"
  let ?h3' = "\<lparr>pkgType = 10, reader = \<lparr>bufsize = 32, pending = [5], rerr = None, rd = []\<rparr>,
          bodyLen = 3, stream = False\<rparr>"
  have b1: "readBodyBytes ?h1 = Return (([47, 97, 98], None), ?h1')" by code_simp
  have b2: "readBodyBytes ?h2 = Return (([47, 97, 98], None), ?h2')" by code_simp
  have b3: "readBodyBytes ?h3 = Return (([47, 97, 98], None), ?h3')" by code_simp
  have m1: "pkgType ?h1 AND PackageType_BitSize = PackageRequest" by code_simp
  have m2: "pkgType ?h2 AND PackageType_BitSize = PackageResponse" by code_simp
  have m3: "pkgType ?h3 AND PackageType_BitSize \<noteq> PackageRequest
      \<and> pkgType ?h3 AND PackageType_BitSize \<noteq> PackageResponse" by code_simp
  have u1: "demo_unpackRequestBody (NewDecoderWithSkip [47, 97, 98]) (AnySlice (replicate 7 AnyNil))
      = (None, AnySlice [AnyNil, AnyNil, AnyNil, AnyNil, AnyNil, AnyNil,
           AnyMap (Some [(''path'', AnyString ''/ab'')])])" by code_simp
  have u2: "demo_unpackResponseBody (NewDecoderWithSkip [47, 97, 98])
        (AnyResponse (DubboResponse AnyNil None None))
      = (None, AnyResponse (DubboResponse (AnyString ''/ab'') None
           (Some [(''path'', AnyString ''/ab'')])))" by code_simp
  show ?thesis
    using C9_ReadAttachments[OF b1, of demo_unpackRequestBody
        "[AnyNil, AnyNil, AnyNil, AnyNil, AnyNil, AnyNil, AnyMap (Some [(''path'', AnyString ''/ab'')])]"
        "Some [(''path'', AnyString ''/ab'')]" demo_unpackResponseBody] m1 u1
      C9_ReadAttachments[OF b2, of demo_unpackRequestBody _ _ demo_unpackResponseBody
        "DubboResponse (AnyString ''/ab'') None (Some [(''path'', AnyString ''/ab'')])"] m2 u2
      C9_ReadAttachments[OF b3, of demo_unpackRequestBody _ _ demo_unpackResponseBody] m3
    by simp
qed

subsection \<open>Unchecked type assertions\<close>

text \<open>
  Claim C10. The exception branch of \<open>ReadBody\<close> asserts the decoded value to be a
  string, and the request branch of \<open>ReadAttachments\<close> asserts the seventh decoded
  argument to be a string-keyed map, both without a check: once the body is obtained
  and the decoder (the unpacker) has returned without error, the call returns exactly
  when the value has that dynamic type, and panics for a value of any other type.
\<close>

theorem C10_unchecked_assertions:
  "(((pkgType h AND PackageType_BitSize = (PackageResponse OR PackageResponse_Exception)
       \<or> pkgType h AND PackageType_BitSize
           = (PackageResponse OR PackageHeartbeat OR PackageResponse_Exception))
      \<and> readBodyBytes h = Return ((buf, None), h')
      \<and> Decode (NewDecoder buf) = (v, None))
     \<longrightarrow> ((\<exists>res. ReadBody Decode unpackRequestBody unpackResponseBody h rspObj = Return res)
            \<longleftrightarrow> (\<exists>s. v = AnyString s))
         \<and> ((\<forall>s. v \<noteq> AnyString s)
            \<longrightarrow> (\<exists>m. ReadBody Decode unpackRequestBody unpackResponseBody h rspObj = Panic m)))
   \<and> ((pkgType h AND PackageType_BitSize = PackageRequest
      \<and> readBodyBytes h = Return ((buf, None), h')
      \<and> unpackRequestBody (NewDecoderWithSkip buf) (AnySlice (replicate 7 AnyNil))
          = (None, AnySlice xs)
      \<and> length xs = 7)
     \<longrightarrow> ((\<exists>res. ReadAttachments unpackRequestBody unpackResponseBody h = Return res)
            \<longleftrightarrow> (\<exists>m. xs ! 6 = AnyMap m))
         \<and> ((\<forall>m. xs ! 6 \<noteq> AnyMap m)
            \<longrightarrow> (\<exists>m. ReadAttachments unpackRequestBody unpackResponseBody h = Panic m)))"
proof (intro conjI impI)
  assume a: "(pkgType h AND PackageType_BitSize = (PackageResponse OR PackageResponse_Exception)
       \<or> pkgType h AND PackageType_BitSize
           = (PackageResponse OR PackageHeartbeat OR PackageResponse_Exception))
      \<and> readBodyBytes h = Return ((buf, None), h')
      \<and> Decode (NewDecoder buf) = (v, None)"
  then have rb: "readBodyBytes h = Return ((buf, None), h')"
    and d: "Decode (NewDecoder buf) = (v, None)" by simp_all
  from readBodyBytes_frame[OF rb] have t: "pkgType h' = pkgType h" by simp
  from a have m: "pkgType h' AND PackageType_BitSize
        = (PackageResponse OR PackageHeartbeat OR PackageResponse_Exception)
      \<or> pkgType h' AND PackageType_BitSize = (PackageResponse OR PackageResponse_Exception)"
    unfolding t by blast
  show "(\<exists>res. ReadBody Decode unpackRequestBody unpackResponseBody h rspObj = Return res)
            \<longleftrightarrow> (\<exists>s. v = AnyString s)"
    using m d
    by (cases rspObj; cases v) (simp_all add: ReadBody_def rb Let_def javaException_def)
  show "\<exists>m. ReadBody Decode unpackRequestBody unpackResponseBody h rspObj = Panic m"
    if "\<forall>s. v \<noteq> AnyString s"
    using m d that
    by (cases rspObj; cases v) (simp_all add: ReadBody_def rb Let_def javaException_def)
next
  assume a: "pkgType h AND PackageType_BitSize = PackageRequest
      \<and> readBodyBytes h = Return ((buf, None), h')
      \<and> unpackRequestBody (NewDecoderWithSkip buf) (AnySlice (replicate 7 AnyNil))
          = (None, AnySlice xs)
      \<and> length xs = 7"
  then have rb: "readBodyBytes h = Return ((buf, None), h')"
    and u: "unpackRequestBody (NewDecoderWithSkip buf) (AnySlice (replicate 7 AnyNil))
          = (None, AnySlice xs)"
    and l: "length xs = 7" by simp_all
  from readBodyBytes_frame[OF rb] a have m: "pkgType h' AND PackageType_BitSize = PackageRequest"
    by simp
  show "(\<exists>res. ReadAttachments unpackRequestBody unpackResponseBody h = Return res)
            \<longleftrightarrow> (\<exists>m. xs ! 6 = AnyMap m)"
    using m u l
    by (cases "xs ! 6") (simp_all add: ReadAttachments_def rb Let_def attachmentsOf_def)
  show "\<exists>m. ReadAttachments unpackRequestBody unpackResponseBody h = Panic m"
    if "\<forall>m. xs ! 6 \<noteq> AnyMap m"
    using m u l that
    by (cases "xs ! 6") (simp_all add: ReadAttachments_def rb Let_def attachmentsOf_def)
qed

theorem C10_unchecked_assertions_witness:
  "(\<exists>m. ReadBody demo_Decode demo_unpackRequestBody demo_unpackResponseBody
        (NewStreamHessianCodecCustom 44 (NewReaderSize [Data [0], Data [97, 98, 5]] 16) 3)
        (AnyResponse (DubboResponse AnyNil None None)) = Panic m)
   \<and> (\<exists>res. ReadBody demo_Decode demo_unpackRequestBody demo_unpackResponseBody
        (NewStreamHessianCodecCustom 44 (NewReaderSize [Data [111], Data [97, 98, 5]] 16) 3)
        (AnyResponse (DubboResponse AnyNil None None)) = Return res)
   \<and> (\<exists>m. ReadAttachments demo_unpackRequestBody demo_unpackResponseBody
        (NewStreamHessianCodecCustom 18 (NewReaderSize [Data [0], Data [97, 98, 5]] 16) 3) = Panic m)
   \<and> (\<exists>res. ReadAttachments demo_unpackRequestBody demo_unpackResponseBody
        (NewStreamHessianCodecCustom 18 (NewReaderSize [Data [47], Data [97, 98, 5]] 16) 3)
          = Return res)"
proof -
  let ?e0 = "NewStreamHessianCodecCustom 44 (NewReaderSize [Data [0], Data [97, 98, 5]] 16) 3"
  let ?e1 = "NewStreamHessianCodecCustom 44 (NewReaderSize [Data [111], Data [97, 98, 5]] 16) 3"
  let ?e' = "\<lparr>pkgType = 44, reader = \<lparr>bufsize = 16, pending = [5], rerr = None, rd = []\<rparr>,
          bodyLen = 3, stream = True\<rparr>"
  let ?r0 = "NewStreamHessianCodecCustom 18 (NewReaderSize [Data [0], Data [97, 98, 5]] 16) 3"
  let ?r1 = "NewStreamHessianCodecCustom 18 (NewReaderSize [Data [47], Data [97, 98, 5]] 16) 3"
  let ?r' = "\<lparr>pkgType = 18, reader = \<lparr>bufsize = 16, pending = [5], rerr = None, rd = []\<rparr>,
          bodyLen = 3, stream = True\<rparr>"
  have me0: "(pkgType ?e0 AND PackageType_BitSize = (PackageResponse OR PackageResponse_Exception)
       \<or> pkgType ?e0 AND PackageType_BitSize
           = (PackageResponse OR PackageHeartbeat OR PackageResponse_Exception))" by code_simp
  have me1: "(pkgType ?e1 AND PackageType_BitSize = (PackageResponse OR PackageResponse_Exception)
       \<or> pkgType ?e1 AND PackageType_BitSize
           = (PackageResponse OR PackageHeartbeat OR PackageResponse_Exception))" by code_simp
  have be0: "readBodyBytes ?e0 = Return (([0, 97, 98], None), ?e')" by code_simp
  have be1: "readBodyBytes ?e1 = Return (([111, 97, 98], None), ?e')" by code_simp
  have d0: "demo_Decode (NewDecoder [0, 97, 98]) = (AnyOther 2, None)" by code_simp
  have d1: "demo_Decode (NewDecoder [111, 97, 98]) = (AnyString ''oab'', None)" by code_simp
  have mr0: "pkgType ?r0 AND PackageType_BitSize = PackageRequest" by code_simp
  have mr1: "pkgType ?r1 AND PackageType_BitSize = PackageRequest" by code_simp
  have br0: "readBodyBytes ?r0 = Return (([0, 97, 98], None), ?r')" by code_simp
  have br1: "readBodyBytes ?r1 = Return (([47, 97, 98], None), ?r')" by code_simp
  have u0: "demo_unpackRequestBody (NewDecoderWithSkip [0, 97, 98]) (AnySlice (replicate 7 AnyNil))
      = (None, AnySlice [AnyNil, AnyNil, AnyNil, AnyNil, AnyNil, AnyNil, AnyString ''no map''])"
    by code_simp
  have u1: "demo_unpackRequestBody (NewDecoderWithSkip [47, 97, 98]) (AnySlice (replicate 7 AnyNil))
      = (None, AnySlice [AnyNil, AnyNil, AnyNil, AnyNil, AnyNil, AnyNil,
           AnyMap (Some [(''path'', AnyString ''/ab'')])])" by code_simp
  show ?thesis
    using
      C10_unchecked_assertions[of ?e0 "[0, 97, 98]" ?e' demo_Decode "AnyOther 2"
        demo_unpackRequestBody demo_unpackResponseBody "AnyResponse (DubboResponse AnyNil None None)"]
      C10_unchecked_assertions[of ?e1 "[111, 97, 98]" ?e' demo_Decode "AnyString ''oab''"
        demo_unpackRequestBody demo_unpackResponseBody "AnyResponse (DubboResponse AnyNil None None)"]
      C10_unchecked_assertions[of ?r0 "[0, 97, 98]" ?r' demo_Decode _ demo_unpackRequestBody
        demo_unpackResponseBody _
        "[AnyNil, AnyNil, AnyNil, AnyNil, AnyNil, AnyNil, AnyString ''no map'']"]
      C10_unchecked_assertions[of ?r1 "[47, 97, 98]" ?r' demo_Decode _ demo_unpackRequestBody
        demo_unpackResponseBody _
        "[AnyNil, AnyNil, AnyNil, AnyNil, AnyNil, AnyNil, AnyMap (Some [(''path'', AnyString ''/ab'')])]"]
      me0 me1 be0 be1 d0 d1 mr0 mr1 br0 br1 u0 u1
    by simp
qed

section \<open>What the code does at the places where it departs from the claims\<close>

text \<open>
  The magic check: a header is rejected as an illegal package when both magic bytes
  are wrong; when one of them is right, a header with a non-zero serialization id and
  a non-negative body length is never rejected as an illegal package.
\<close>

lemma ReadHeader_both_magic_bytes_wrong:
  assumes "pending (reader h) = buf @ rest" and "length buf = 16"
    and "stream h \<or> 16 \<le> bufsize (reader h)"
    and "buf ! 0 \<noteq> MAGIC_HIGH c" and "buf ! 1 \<noteq> MAGIC_LOW c"
  shows "ReadHeader w c h header
    = Return (Some ErrIllegalPackage, h\<lparr>reader := (reader h)\<lparr>pending := rest\<rparr>\<rparr>, header)"
  unfolding ReadHeader_front[OF assms(1,2,3)] using assms(4,5)
  by (simp add: decodeHeader_def)

lemma ReadHeader_one_magic_byte_right:
  assumes "pending (reader h) = buf @ rest" and "length buf = 16"
    and "stream h \<or> 16 \<le> bufsize (reader h)"
    and "buf ! 0 = MAGIC_HIGH c \<or> buf ! 1 = MAGIC_LOW c"
    and "buf ! 2 AND SERIAL_MASK \<noteq> 0"
    and "0 \<le> int_of_uint32 w (BigEndian_Uint32 (drop 12 buf))"
  shows "\<exists>e h' header'. ReadHeader w c h header = Return (e, h', header')
    \<and> e \<noteq> Some ErrIllegalPackage"
proof -
  from decodeHeader_passes[OF assms(4,5,6), of "h\<lparr>reader := (reader h)\<lparr>pending := rest\<rparr>\<rparr>" header]
  show ?thesis
    unfolding ReadHeader_front[OF assms(1,2,3)] by auto
qed

text \<open>A serialization id of zero is rejected, with the id stored on the header.\<close>

lemma ReadHeader_zero_serialization_id:
  assumes "pending (reader h) = buf @ rest" and "length buf = 16"
    and "stream h \<or> 16 \<le> bufsize (reader h)"
    and "buf ! 0 = MAGIC_HIGH c \<or> buf ! 1 = MAGIC_LOW c"
    and "buf ! 2 AND SERIAL_MASK = 0"
  shows "ReadHeader w c h header
    = Return (Some (Errorf ''serialization ID:0''),
        h\<lparr>reader := (reader h)\<lparr>pending := rest\<rparr>\<rparr>, header\<lparr>SerialID := 0\<rparr>)"
proof -
  have s: "show_nat (unat (0 :: byte)) = ''0''" by code_simp
  show ?thesis
    unfolding ReadHeader_front[OF assms(1,2,3)] using assms(4,5) s
    by (auto simp: decodeHeader_def Let_def Zero_def)
qed

text \<open>
  "Header not enough" is the answer of the buffered mode to a reader whose capacity is
  below 16, whatever it buffers; session and header are left as they are. A reader
  made by \<open>bufio.NewReaderSize\<close> never has such a capacity.
\<close>

lemma ReadHeader_small_capacity:
  "\<not> stream h \<Longrightarrow> Size (reader h) < 16 \<Longrightarrow>
   ReadHeader w c h header = Return (Some ErrHeaderNotEnough, h, header)"
  by (simp add: ReadHeader_def HEADER_LENGTH_def)

lemma NewReaderSize_capacity: "16 \<le> Size (NewReaderSize src sz)"
  by (simp add: Size_def NewReaderSize_def)

text \<open>A heartbeat frame without the exception bit: the body bytes are consumed and
  nothing is decoded.\<close>

lemma ReadBody_heartbeat:
  assumes "pkgType h AND PackageType_BitSize = (PackageRequest OR PackageHeartbeat)
      \<or> pkgType h AND PackageType_BitSize = (PackageResponse OR PackageHeartbeat)"
    and "readBodyBytes h = Return ((buf, None), h')"
  shows "ReadBody Decode unpackRequestBody unpackResponseBody h rspObj = Return (None, h', rspObj)"
proof -
  from readBodyBytes_frame[OF assms(2)] have t: "pkgType h' = pkgType h" by simp
  have ne: "PackageRequest OR PackageHeartbeat \<noteq> PackageResponse OR PackageHeartbeat OR PackageResponse_Exception"
    "PackageRequest OR PackageHeartbeat \<noteq> PackageResponse OR PackageResponse_Exception"
    "PackageResponse OR PackageHeartbeat \<noteq> PackageResponse OR PackageHeartbeat OR PackageResponse_Exception"
    "PackageResponse OR PackageHeartbeat \<noteq> PackageResponse OR PackageResponse_Exception"
    by (simp_all add: PackageRequest_def PackageHeartbeat_def PackageResponse_def
        PackageResponse_Exception_def)
  from assms(1) ne show ?thesis
    by (auto simp: ReadBody_def assms(2) Let_def t)
qed

end
